theory Spec2Isabelle
  imports Main
begin

section \<open>Data model of the routines hook\<close>

text \<open>
  The hook \<^verbatim>\<open>useRoutines\<close> (src/src/hooks/useRoutines.ts) works on JavaScript objects.
  A key of an object is absent, holds \<^verbatim>\<open>undefined\<close>, or holds a value; reading the key
  gives \<^verbatim>\<open>undefined\<close> in the first two cases. The spread \<^verbatim>\<open>{...a, ...b}\<close> keeps the key of
  \<open>a\<close> where \<open>b\<close> has none and takes the key of \<open>b\<close> otherwise, also when that key holds
  \<^verbatim>\<open>undefined\<close>. A rest pattern \<^verbatim>\<open>const {k, ...rest} = o\<close> leaves the key \<open>k\<close> out of
  \<open>rest\<close>, and \<^verbatim>\<open>{...o, k: x}\<close> sets it to what \<open>x\<close> evaluates to.
\<close>

datatype 'a attr = Absent | Undefined | Val 'a

fun rd :: "'a attr \<Rightarrow> 'a option" where
  "rd (Val v) = Some v"
| "rd Undefined = None"
| "rd Absent = None"

fun holding :: "'a option \<Rightarrow> 'a attr" where
  "holding (Some v) = Val v"
| "holding None = Undefined"

fun over :: "'a attr \<Rightarrow> 'a attr \<Rightarrow> 'a attr" where
  "over Absent a = a"
| "over Undefined a = Undefined"
| "over (Val v) a = Val v"

text \<open>A marker is set when the key holds \<^verbatim>\<open>true\<close>.\<close>

definition truthy :: "bool attr \<Rightarrow> bool" where
  "truthy f = (f = Val True)"

text \<open>
  An awaited call either resolves with a value or throws (a rejected promise, or an
  exception raised while the call expression is evaluated); \<open>Threw\<close> carries the message
  of the error.
\<close>

datatype 'a outcome = Threw string | Resolved 'a

text \<open>
  The declarations of \<^verbatim>\<open>Routine\<close> and \<^verbatim>\<open>RoutineSlot\<close> (types/routine) are not part of the
  sources at hand; the keys the hook reads or writes are fields of the records below and
  everything else an object carries is its payload, of an arbitrary type.
\<close>

record 'q RoutineSlot =
  s_id :: "string attr"
  s_routineId :: "string attr"
  s_createdAt :: "string attr"
  s_payload :: "'q attr"
  s_isOffline :: "bool attr"
  s_isOfflineUpdated :: "bool attr"
  s_isOfflineDeleted :: "bool attr"

record ('p, 'q) Routine =
  r_id :: "string attr"
  r_name :: "string attr"
  r_isActive :: "bool attr"
  r_slots :: "'q RoutineSlot list attr"
  r_payload :: "'p attr"
  r_isOffline :: "bool attr"
  r_isOfflineUpdated :: "bool attr"
  r_isOfflineDeleted :: "bool attr"
  r_needsActivationSync :: "bool attr"
  r_needsDeactivationSync :: "bool attr"

text \<open>What the expressions \<^verbatim>\<open>routine.id\<close> and \<^verbatim>\<open>slot.id\<close> read.\<close>

definition rid :: "('p, 'q) Routine \<Rightarrow> string option" where
  "rid routine = rd (r_id routine)"

definition sid :: "'q RoutineSlot \<Rightarrow> string option" where
  "sid slot = rd (s_id slot)"

text \<open>\<^verbatim>\<open>Array.prototype.findIndex\<close>; \<open>None\<close> is the result \<^verbatim>\<open>-1\<close>.\<close>

fun findIndex :: "('a \<Rightarrow> bool) \<Rightarrow> 'a list \<Rightarrow> nat option" where
  "findIndex P [] = None"
| "findIndex P (x # xs) = (if P x then Some 0 else map_option Suc (findIndex P xs))"

text \<open>\<^verbatim>\<open>xs.splice(i, 1)\<close> for an index inside the array.\<close>

definition splice1 :: "nat \<Rightarrow> 'a list \<Rightarrow> 'a list" where
  "splice1 i xs = take i xs @ drop (Suc i) xs"

section \<open>The remote service\<close>

text \<open>
  The functions of \<^verbatim>\<open>services/routine.service\<close> reach the remote data service; the module
  is not part of the sources at hand, and its functions are parameters. Within one run
  the service is a script: every function receives, before its arguments, the number of
  remote calls submitted so far, and answers with a resolved or a rejected promise. The
  calls submitted are recorded in a log.
\<close>

datatype ('p, 'q) call =
    DeleteRoutine "string option"
  | ActivateRoutine "string option"
  | DeactivateRoutine "string option"
  | CreateRoutine "('p, 'q) Routine"
  | UpdateRoutine "string option" "('p, 'q) Routine"

record ('p, 'q) services =
  createRoutineService :: "nat \<Rightarrow> ('p, 'q) Routine \<Rightarrow> ('p, 'q) Routine outcome"
  updateRoutineService :: "nat \<Rightarrow> string option \<Rightarrow> ('p, 'q) Routine \<Rightarrow> unit outcome"
  deleteRoutineService :: "nat \<Rightarrow> string option \<Rightarrow> unit outcome"
  activateRoutineService :: "nat \<Rightarrow> string option \<Rightarrow> unit outcome"
  deactivateRoutineService :: "nat \<Rightarrow> string option \<Rightarrow> unit outcome"

text \<open>
  The import list of the hook (lines 3 to 17) binds \<^verbatim>\<open>addRoutineSlot\<close>,
  \<^verbatim>\<open>updateRoutineSlot\<close> and \<^verbatim>\<open>deleteRoutineSlot\<close> without an alias, and the hook declares
  constants of these three names itself. The identifiers \<^verbatim>\<open>addRoutineSlotService\<close>,
  \<^verbatim>\<open>updateRoutineSlotService\<close> and \<^verbatim>\<open>deleteRoutineSlotService\<close>, which the hook calls, are
  bound nowhere in the module: evaluating such a call raises a \<^verbatim>\<open>ReferenceError\<close> before
  anything is submitted to the remote service.
\<close>

definition addRoutineSlotService :: "string option \<Rightarrow> 'q RoutineSlot \<Rightarrow> 'q RoutineSlot outcome" where
  "addRoutineSlotService routineId slotData = Threw ''addRoutineSlotService is not defined''"

definition updateRoutineSlotService :: "string option \<Rightarrow> string option \<Rightarrow> 'q RoutineSlot \<Rightarrow> unit outcome" where
  "updateRoutineSlotService routineId slotId slotData = Threw ''updateRoutineSlotService is not defined''"

definition deleteRoutineSlotService :: "string option \<Rightarrow> string option \<Rightarrow> unit outcome" where
  "deleteRoutineSlotService routineId slotId = Threw ''deleteRoutineSlotService is not defined''"

section \<open>The reconciliation pass\<close>

text \<open>The local variables of \<^verbatim>\<open>syncOfflineChangesEnhanced\<close>, and the log of remote calls.\<close>

record ('p, 'q) pass =
  syncedRoutines :: "('p, 'q) Routine list"
  hasChanges :: bool
  syncErrors :: nat
  calls :: "('p, 'q) call list"

text \<open>The local variables of the loop over the slots of one routine.\<close>

record 'q slot_loop =
  syncedSlots :: "'q RoutineSlot list"
  slotsChanged :: bool
  slotErrors :: nat

definition slotMarked :: "'q RoutineSlot \<Rightarrow> bool" where
  "slotMarked slot =
     (truthy (s_isOffline slot) \<or> truthy (s_isOfflineUpdated slot) \<or> truthy (s_isOfflineDeleted slot))"

text \<open>Lines 315 to 381: the body of the loop over \<^verbatim>\<open>routine.slots\<close>.\<close>

definition syncSlot :: "('p, 'q) Routine \<Rightarrow> 'q RoutineSlot \<Rightarrow> 'q slot_loop \<Rightarrow> 'q slot_loop" where
  "syncSlot routine slot l =
     (if \<not> truthy (s_isOffline slot) \<and> \<not> truthy (s_isOfflineUpdated slot)
          \<and> \<not> truthy (s_isOfflineDeleted slot) then l
      else if truthy (s_isOfflineDeleted slot) then
        (case deleteRoutineSlotService (rid routine) (sid slot) of
           Resolved u \<Rightarrow>
             (case findIndex (\<lambda>s. sid s = sid slot) (syncedSlots l) of
                Some slotIndex \<Rightarrow>
                  l\<lparr>syncedSlots := splice1 slotIndex (syncedSlots l), slotsChanged := True\<rparr>
              | None \<Rightarrow> l)
         | Threw m \<Rightarrow> l\<lparr>slotErrors := slotErrors l + 1\<rparr>)
      else if truthy (s_isOffline slot) then
        (case addRoutineSlotService (rid routine)
                (slot\<lparr>s_isOffline := Absent, s_id := Absent, s_routineId := Absent,
                      s_createdAt := Absent\<rparr>) of
           Resolved newSlot \<Rightarrow>
             (case findIndex (\<lambda>s. sid s = sid slot) (syncedSlots l) of
                Some slotIndex \<Rightarrow>
                  l\<lparr>syncedSlots := (syncedSlots l)[slotIndex := newSlot], slotsChanged := True\<rparr>
              | None \<Rightarrow> l)
         | Threw m \<Rightarrow> l\<lparr>slotErrors := slotErrors l + 1\<rparr>)
      else if truthy (s_isOfflineUpdated slot) then
        (case updateRoutineSlotService (rid routine) (sid slot)
                (slot\<lparr>s_isOfflineUpdated := Absent, s_isOffline := Absent\<rparr>) of
           Resolved u \<Rightarrow>
             (case findIndex (\<lambda>s. sid s = sid slot) (syncedSlots l) of
                Some slotIndex \<Rightarrow>
                  l\<lparr>syncedSlots := (syncedSlots l)
                       [slotIndex := slot\<lparr>s_isOffline := Absent, s_id := holding (sid slot),
                                           s_routineId := holding (rid routine),
                                           s_isOfflineUpdated := Undefined\<rparr>],
                    slotsChanged := True\<rparr>
              | None \<Rightarrow> l)
         | Threw m \<Rightarrow> l\<lparr>slotErrors := slotErrors l + 1\<rparr>)
      else l)"

fun syncSlots :: "('p, 'q) Routine \<Rightarrow> 'q RoutineSlot list \<Rightarrow> 'q slot_loop \<Rightarrow> 'q slot_loop" where
  "syncSlots routine [] l = l"
| "syncSlots routine (slot # rest) l = syncSlots routine rest (syncSlot routine slot l)"

text \<open>Lines 310 to 394: the slot changes of one routine.\<close>

definition syncRoutineSlots :: "('p, 'q) Routine \<Rightarrow> ('p, 'q) pass \<Rightarrow> ('p, 'q) pass" where
  "syncRoutineSlots routine p =
     (case rd (r_slots routine) of
        None \<Rightarrow> p
      | Some slots \<Rightarrow>
          if slots = [] then p
          else
            let l = syncSlots routine slots
                      \<lparr>syncedSlots = slots, slotsChanged = False, slotErrors = syncErrors p\<rparr>;
                p1 = p\<lparr>syncErrors := slotErrors l\<rparr>
            in if slotsChanged l then
                 (case findIndex (\<lambda>r. rid r = rid routine) (syncedRoutines p1) of
                    Some routineIndex \<Rightarrow>
                      p1\<lparr>syncedRoutines := (syncedRoutines p1)
                            [routineIndex := (syncedRoutines p1 ! routineIndex)\<lparr>r_slots := Val (syncedSlots l)\<rparr>],
                         hasChanges := True\<rparr>
                  | None \<Rightarrow> p1)
               else p1)"

text \<open>Lines 216 to 228: a routine deleted offline.\<close>

definition syncDelete :: "('p, 'q) services \<Rightarrow> ('p, 'q) Routine \<Rightarrow> ('p, 'q) pass \<Rightarrow> ('p, 'q) pass" where
  "syncDelete svc routine p =
     (let p1 = p\<lparr>calls := calls p @ [DeleteRoutine (rid routine)]\<rparr>
      in case deleteRoutineService svc (length (calls p)) (rid routine) of
           Resolved u \<Rightarrow>
             p1\<lparr>syncedRoutines := filter (\<lambda>r. rid r \<noteq> rid routine) (syncedRoutines p1),
                hasChanges := True\<rparr>
         | Threw m \<Rightarrow> p1\<lparr>syncErrors := syncErrors p1 + 1\<rparr>)"

text \<open>Lines 230 to 265: activation, or else deactivation.\<close>

definition syncActivation :: "('p, 'q) services \<Rightarrow> ('p, 'q) Routine \<Rightarrow> ('p, 'q) pass \<Rightarrow> ('p, 'q) pass" where
  "syncActivation svc routine p =
     (if truthy (r_needsActivationSync routine) then
        (let p1 = p\<lparr>calls := calls p @ [ActivateRoutine (rid routine)]\<rparr>
         in case activateRoutineService svc (length (calls p)) (rid routine) of
              Resolved u \<Rightarrow>
                (case findIndex (\<lambda>r. rid r = rid routine) (syncedRoutines p1) of
                   Some routineIndex \<Rightarrow>
                     p1\<lparr>syncedRoutines := (syncedRoutines p1)
                           [routineIndex := (syncedRoutines p1 ! routineIndex)
                              \<lparr>r_isActive := Val True, r_needsActivationSync := Undefined\<rparr>],
                        hasChanges := True\<rparr>
                 | None \<Rightarrow> p1)
            | Threw m \<Rightarrow> p1\<lparr>syncErrors := syncErrors p1 + 1\<rparr>)
      else if truthy (r_needsDeactivationSync routine) then
        (let p1 = p\<lparr>calls := calls p @ [DeactivateRoutine (rid routine)]\<rparr>
         in case deactivateRoutineService svc (length (calls p)) (rid routine) of
              Resolved u \<Rightarrow>
                (case findIndex (\<lambda>r. rid r = rid routine) (syncedRoutines p1) of
                   Some routineIndex \<Rightarrow>
                     p1\<lparr>syncedRoutines := (syncedRoutines p1)
                           [routineIndex := (syncedRoutines p1 ! routineIndex)
                              \<lparr>r_isActive := Val False, r_needsDeactivationSync := Undefined\<rparr>],
                        hasChanges := True\<rparr>
                 | None \<Rightarrow> p1)
            | Threw m \<Rightarrow> p1\<lparr>syncErrors := syncErrors p1 + 1\<rparr>)
      else p)"

text \<open>
  Lines 267 to 284: a routine created offline. The argument of the remote create is the
  routine without the keys \<^verbatim>\<open>_isOffline\<close> and \<^verbatim>\<open>id\<close>.
\<close>

definition createData :: "('p, 'q) Routine \<Rightarrow> ('p, 'q) Routine" where
  "createData routine = routine\<lparr>r_isOffline := Absent, r_id := Absent\<rparr>"

definition syncCreate :: "('p, 'q) services \<Rightarrow> ('p, 'q) Routine \<Rightarrow> ('p, 'q) pass \<Rightarrow> ('p, 'q) pass" where
  "syncCreate svc routine p =
     (let p1 = p\<lparr>calls := calls p @ [CreateRoutine (createData routine)]\<rparr>
      in case createRoutineService svc (length (calls p)) (createData routine) of
           Resolved newRoutine \<Rightarrow>
             p1\<lparr>syncedRoutines := filter (\<lambda>r. rid r \<noteq> rid routine) (syncedRoutines p1) @ [newRoutine],
                hasChanges := True\<rparr>
         | Threw m \<Rightarrow> p1\<lparr>syncErrors := syncErrors p1 + 1\<rparr>)"

text \<open>
  Lines 286 to 308: a routine updated offline. The argument of the remote update, and the
  object spread over the synced version, is the routine without the keys
  \<^verbatim>\<open>_isOfflineUpdated\<close>, \<^verbatim>\<open>_isOffline\<close>, \<^verbatim>\<open>_needsActivationSync\<close>, \<^verbatim>\<open>_needsDeactivationSync\<close>
  and \<^verbatim>\<open>slots\<close>.
\<close>

definition updateData :: "('p, 'q) Routine \<Rightarrow> ('p, 'q) Routine" where
  "updateData routine =
     routine\<lparr>r_isOfflineUpdated := Absent, r_isOffline := Absent, r_needsActivationSync := Absent,
             r_needsDeactivationSync := Absent, r_slots := Absent\<rparr>"

text \<open>\<^verbatim>\<open>{...a, ...b}\<close> on routines.\<close>

definition spread :: "('p, 'q) Routine \<Rightarrow> ('p, 'q) Routine \<Rightarrow> ('p, 'q) Routine" where
  "spread a b =
     \<lparr>r_id = over (r_id b) (r_id a),
      r_name = over (r_name b) (r_name a),
      r_isActive = over (r_isActive b) (r_isActive a),
      r_slots = over (r_slots b) (r_slots a),
      r_payload = over (r_payload b) (r_payload a),
      r_isOffline = over (r_isOffline b) (r_isOffline a),
      r_isOfflineUpdated = over (r_isOfflineUpdated b) (r_isOfflineUpdated a),
      r_isOfflineDeleted = over (r_isOfflineDeleted b) (r_isOfflineDeleted a),
      r_needsActivationSync = over (r_needsActivationSync b) (r_needsActivationSync a),
      r_needsDeactivationSync = over (r_needsDeactivationSync b) (r_needsDeactivationSync a)\<rparr>"

definition syncUpdate :: "('p, 'q) services \<Rightarrow> ('p, 'q) Routine \<Rightarrow> ('p, 'q) pass \<Rightarrow> ('p, 'q) pass" where
  "syncUpdate svc routine p =
     (if truthy (r_isOfflineUpdated routine) then
        (let p1 = p\<lparr>calls := calls p @ [UpdateRoutine (rid routine) (updateData routine)]\<rparr>
         in case updateRoutineService svc (length (calls p)) (rid routine) (updateData routine) of
              Resolved u \<Rightarrow>
                (case findIndex (\<lambda>r. rid r = rid routine) (syncedRoutines p1) of
                   Some index \<Rightarrow>
                     p1\<lparr>syncedRoutines := (syncedRoutines p1)
                           [index := (spread (syncedRoutines p1 ! index) (updateData routine))
                              \<lparr>r_isOfflineUpdated := Undefined\<rparr>],
                        hasChanges := True\<rparr>
                 | None \<Rightarrow> p1)
            | Threw m \<Rightarrow> p1\<lparr>syncErrors := syncErrors p1 + 1\<rparr>)
      else p)"

text \<open>Lines 204 to 212: the routines the loop skips.\<close>

definition noOfflineChanges :: "('p, 'q) Routine \<Rightarrow> bool" where
  "noOfflineChanges routine =
     (\<not> truthy (r_isOffline routine) \<and> \<not> truthy (r_isOfflineUpdated routine)
      \<and> \<not> truthy (r_isOfflineDeleted routine) \<and> \<not> truthy (r_needsActivationSync routine)
      \<and> \<not> truthy (r_needsDeactivationSync routine)
      \<and> \<not> (case rd (r_slots routine) of None \<Rightarrow> False | Some slots \<Rightarrow> list_ex slotMarked slots))"

text \<open>Lines 203 to 395: the body of the loop over \<^verbatim>\<open>offlineRoutines\<close>.\<close>

definition syncRoutine :: "('p, 'q) services \<Rightarrow> ('p, 'q) Routine \<Rightarrow> ('p, 'q) pass \<Rightarrow> ('p, 'q) pass" where
  "syncRoutine svc routine p =
     (if noOfflineChanges routine then p
      else if truthy (r_isOfflineDeleted routine) then syncDelete svc routine p
      else
        let p1 = syncActivation svc routine p
        in if truthy (r_isOffline routine) then syncCreate svc routine p1
           else syncRoutineSlots routine (syncUpdate svc routine p1))"

fun syncLoop :: "('p, 'q) services \<Rightarrow> ('p, 'q) Routine list \<Rightarrow> ('p, 'q) pass \<Rightarrow> ('p, 'q) pass" where
  "syncLoop svc [] p = p"
| "syncLoop svc (routine # rest) p = syncLoop svc rest (syncRoutine svc routine p)"

section \<open>The state of the hook and its surroundings\<close>

text \<open>
  The React state of the hook (\<open>routines\<close>, \<open>error\<close>, \<open>syncInProgress\<close>), the IndexedDB
  store of routines, the entry \<^verbatim>\<open>routines_last_fetched\<close> of \<^verbatim>\<open>localStorage\<close> and the log of
  the remote calls submitted. A function of the hook works on the state current when it
  runs and returns the state it leaves.
\<close>

record ('p, 'q, 'st) hook =
  routines :: "('p, 'q) Routine list"
  error :: "string option"
  syncInProgress :: bool
  store :: 'st
  cacheTimestamp :: "string option"
  remoteLog :: "('p, 'q) call list"

text \<open>
  What a function object of the hook sees of its surroundings: the constant \<^verbatim>\<open>isOffline\<close>
  of the render that made it (line 30), and, when it runs, the decimal digits of
  \<^verbatim>\<open>Date.now()\<close>, the string \<^verbatim>\<open>Math.random().toString(36).substring(2, 9)\<close> and
  \<^verbatim>\<open>new Date().toISOString()\<close>.
\<close>

record env =
  isOffline :: bool
  dateNow :: string
  randomSuffix :: string
  isoNow :: string

text \<open>
  The two functions of \<^verbatim>\<open>utils/offlineStorage\<close> the hook uses on the store of routines,
  as an interface: reading the whole collection and replacing it.
\<close>

record ('p, 'q, 'st) storage =
  getAllFromIndexedDB :: "'st \<Rightarrow> ('p, 'q) Routine list outcome"
  saveToIndexedDB :: "('p, 'q) Routine list \<Rightarrow> 'st \<Rightarrow> 'st outcome"

text \<open>
  The module as the sources have it (src/unnamed/part_006, lines 299 to 320): reading
  resolves with the empty array and saving does nothing. This is the storage of the
  program.
\<close>

definition disabledStorage :: "('p, 'q, 'st) storage" where
  "disabledStorage =
     \<lparr>getAllFromIndexedDB = (\<lambda>st. Resolved []), saveToIndexedDB = (\<lambda>data st. Resolved st)\<rparr>"

section \<open>The functions of the hook\<close>

text \<open>Lines 165 to 168.\<close>

definition syncOfflineChanges :: "('p, 'q, 'st) hook \<Rightarrow> unit outcome \<times> ('p, 'q, 'st) hook" where
  "syncOfflineChanges h = (Resolved (), h)"

text \<open>
  Lines 190 to 414. The guard of line 191 tests the constants \<^verbatim>\<open>isOffline\<close> and
  \<^verbatim>\<open>syncInProgress\<close> of the render that made the function object (lines 29 and 30), not
  the state current at the call: \<open>seenInProgress\<close> is that constant. The function runs up
  to its first \<^verbatim>\<open>await\<close> (\<open>syncBegin\<close>: the guard and \<^verbatim>\<open>setSyncInProgress(true)\<close>) and takes
  up again later (\<open>syncRest\<close>); other functions may run in between. The outer \<^verbatim>\<open>catch\<close>
  takes what the storage functions throw, and \<^verbatim>\<open>finally\<close> clears the flag.
\<close>

definition startPass :: "('p, 'q) Routine list \<Rightarrow> ('p, 'q) call list \<Rightarrow> ('p, 'q) pass" where
  "startPass offlineRoutines lg =
     \<lparr>syncedRoutines = offlineRoutines, hasChanges = False, syncErrors = 0, calls = lg\<rparr>"

definition syncBegin :: "env \<Rightarrow> bool \<Rightarrow> ('p, 'q, 'st) hook \<Rightarrow> bool \<times> ('p, 'q, 'st) hook" where
  "syncBegin e seenInProgress h =
     (if isOffline e \<or> seenInProgress then (False, h) else (True, h\<lparr>syncInProgress := True\<rparr>))"

definition syncRest ::
  "('p, 'q) services \<Rightarrow> ('p, 'q, 'st) storage \<Rightarrow> env \<Rightarrow> ('p, 'q, 'st) hook \<Rightarrow> ('p, 'q, 'st) hook" where
  "syncRest svc sto e h1 =
     (case getAllFromIndexedDB sto (store h1) of
        Threw m \<Rightarrow> h1\<lparr>error := Some ''Failed to sync offline changes'', syncInProgress := False\<rparr>
      | Resolved offlineRoutines \<Rightarrow>
          let p = syncLoop svc offlineRoutines (startPass offlineRoutines (remoteLog h1));
              h2 = h1\<lparr>remoteLog := calls p\<rparr>
          in if hasChanges p then
               (case saveToIndexedDB sto (syncedRoutines p) (store h2) of
                  Threw m \<Rightarrow>
                    h2\<lparr>error := Some ''Failed to sync offline changes'', syncInProgress := False\<rparr>
                | Resolved st \<Rightarrow>
                    h2\<lparr>store := st, routines := syncedRoutines p,
                       cacheTimestamp := Some (dateNow e), syncInProgress := False\<rparr>)
             else h2\<lparr>syncInProgress := False\<rparr>)"

text \<open>A call that nothing interrupts.\<close>

definition syncOfflineChangesEnhanced ::
  "('p, 'q) services \<Rightarrow> ('p, 'q, 'st) storage \<Rightarrow> env \<Rightarrow> bool \<Rightarrow> ('p, 'q, 'st) hook
     \<Rightarrow> unit outcome \<times> ('p, 'q, 'st) hook" where
  "syncOfflineChangesEnhanced svc sto e seenInProgress h =
     (case syncBegin e seenInProgress h of
        (started, h1) \<Rightarrow> (Resolved (), if started then syncRest svc sto e h1 else h1))"

text \<open>Lines 92 to 107.\<close>

definition handleCreateRoutine ::
  "('p, 'q) services \<Rightarrow> env \<Rightarrow> ('p, 'q) Routine \<Rightarrow> ('p, 'q, 'st) hook
     \<Rightarrow> ('p, 'q) Routine outcome \<times> ('p, 'q, 'st) hook" where
  "handleCreateRoutine svc e routine h =
     (if isOffline e then
        (Threw ''Cannot create routines while offline. Please connect to the internet and try again.'', h)
      else
        let h1 = h\<lparr>remoteLog := remoteLog h @ [CreateRoutine routine]\<rparr>
        in case createRoutineService svc (length (remoteLog h)) routine of
             Resolved createdRoutine \<Rightarrow>
               (Resolved createdRoutine, h1\<lparr>routines := routines h1 @ [createdRoutine]\<rparr>)
           | Threw m \<Rightarrow> (Threw m, h1))"

text \<open>\<^verbatim>\<open>routine.slots || []\<close>\<close>

definition slotsOrEmpty :: "('p, 'q) Routine \<Rightarrow> 'q RoutineSlot list" where
  "slotsOrEmpty r = (case rd (r_slots r) of None \<Rightarrow> [] | Some slots \<Rightarrow> slots)"

text \<open>
  Lines 416 to 501. The online branch stops at the call of \<^verbatim>\<open>addRoutineSlotService\<close>,
  which raises; the outer \<^verbatim>\<open>catch\<close> stores the message and throws again. The statements
  after that call are never reached; of them the model keeps the update of the state in
  memory.
\<close>

definition addRoutineSlot ::
  "('p, 'q, 'st) storage \<Rightarrow> env \<Rightarrow> string \<Rightarrow> 'q RoutineSlot \<Rightarrow> ('p, 'q, 'st) hook
     \<Rightarrow> 'q RoutineSlot outcome \<times> ('p, 'q, 'st) hook" where
  "addRoutineSlot sto e routineId slot h =
     (let h0 = h\<lparr>error := None\<rparr>
      in if isOffline e then
           let tempId = ''temp-slot-'' @ dateNow e @ ''-'' @ randomSuffix e;
               newSlot = slot\<lparr>s_id := Val tempId, s_routineId := Val routineId,
                              s_createdAt := Val (isoNow e), s_isOffline := Val True\<rparr>
           in case getAllFromIndexedDB sto (store h0) of
                Threw m \<Rightarrow> (Threw m, h0\<lparr>error := Some m\<rparr>)
              | Resolved updatedRoutines \<Rightarrow>
                  (case findIndex (\<lambda>r. r_id r = Val routineId) updatedRoutines of
                     Some routineIndex \<Rightarrow>
                       let routine = updatedRoutines ! routineIndex;
                           updatedRoutine = routine\<lparr>r_slots := Val (slotsOrEmpty routine @ [newSlot])\<rparr>
                       in (case saveToIndexedDB sto (updatedRoutines[routineIndex := updatedRoutine])
                                  (store h0) of
                             Threw m \<Rightarrow> (Threw m, h0\<lparr>error := Some m\<rparr>)
                           | Resolved st \<Rightarrow>
                               (Resolved newSlot,
                                h0\<lparr>store := st,
                                   routines := map (\<lambda>r. if r_id r = Val routineId
                                                         then r\<lparr>r_slots := Val (slotsOrEmpty r @ [newSlot])\<rparr>
                                                         else r) (routines h0)\<rparr>))
                   | None \<Rightarrow> (Threw ''Routine not found'', h0\<lparr>error := Some ''Routine not found''\<rparr>))
         else
           (case addRoutineSlotService (Some routineId) slot of
              Threw m \<Rightarrow> (Threw m, h0\<lparr>error := Some m\<rparr>)
            | Resolved newSlot \<Rightarrow>
                (Resolved newSlot,
                 h0\<lparr>routines := map (\<lambda>r. if r_id r = Val routineId
                                          then r\<lparr>r_slots := Val (slotsOrEmpty r @ [newSlot])\<rparr>
                                          else r) (routines h0)\<rparr>)))"

text \<open>
  Lines 583 to 661. The online branch stops at the call of \<^verbatim>\<open>deleteRoutineSlotService\<close>,
  which raises; of the statements after it, never reached, the model keeps the update of
  the state in memory.
\<close>

definition markDeleted :: "string \<Rightarrow> 'q RoutineSlot list \<Rightarrow> 'q RoutineSlot list" where
  "markDeleted slotId slots =
     filter (\<lambda>slot. \<not> (s_id slot = Val slotId \<and> truthy (s_isOffline slot)))
       (map (\<lambda>slot. if s_id slot = Val slotId then slot\<lparr>s_isOfflineDeleted := Val True\<rparr> else slot)
          slots)"

definition dropSlot :: "string \<Rightarrow> string \<Rightarrow> ('p, 'q) Routine list \<Rightarrow> ('p, 'q) Routine list" where
  "dropSlot routineId slotId rs =
     map (\<lambda>routine. if r_id routine = Val routineId
                     then routine\<lparr>r_slots := holding (map_option (filter (\<lambda>slot. s_id slot \<noteq> Val slotId))
                                                         (rd (r_slots routine)))\<rparr>
                     else routine) rs"

definition deleteRoutineSlot ::
  "('p, 'q, 'st) storage \<Rightarrow> env \<Rightarrow> string \<Rightarrow> string \<Rightarrow> ('p, 'q, 'st) hook
     \<Rightarrow> unit outcome \<times> ('p, 'q, 'st) hook" where
  "deleteRoutineSlot sto e routineId slotId h =
     (let h0 = h\<lparr>error := None\<rparr>
      in if isOffline e then
           (case getAllFromIndexedDB sto (store h0) of
              Threw m \<Rightarrow> (Threw m, h0\<lparr>error := Some m\<rparr>)
            | Resolved existingRoutines \<Rightarrow>
                (case findIndex (\<lambda>r. r_id r = Val routineId) existingRoutines of
                   Some routineIndex \<Rightarrow>
                     let routine = existingRoutines ! routineIndex;
                         updatedRoutine =
                           routine\<lparr>r_slots := holding (map_option (markDeleted slotId) (rd (r_slots routine)))\<rparr>
                     in (case saveToIndexedDB sto (existingRoutines[routineIndex := updatedRoutine])
                                (store h0) of
                           Threw m \<Rightarrow> (Threw m, h0\<lparr>error := Some m\<rparr>)
                         | Resolved st \<Rightarrow>
                             (Resolved (),
                              h0\<lparr>store := st, routines := dropSlot routineId slotId (routines h0)\<rparr>))
                 | None \<Rightarrow>
                     (Resolved (), h0\<lparr>routines := dropSlot routineId slotId (routines h0)\<rparr>)))
         else
           (case deleteRoutineSlotService (Some routineId) (Some slotId) of
              Threw m \<Rightarrow> (Threw m, h0\<lparr>error := Some m\<rparr>)
            | Resolved u \<Rightarrow>
                (Resolved (), h0\<lparr>routines := dropSlot routineId slotId (routines h0)\<rparr>)))"

text \<open>Lines 742 to 790.\<close>

definition markActive :: "string \<Rightarrow> ('p, 'q) Routine \<Rightarrow> ('p, 'q) Routine" where
  "markActive routineId routine =
     routine\<lparr>r_isActive := Val (r_id routine = Val routineId),
             r_needsActivationSync := (if r_id routine = Val routineId then Val True else Undefined)\<rparr>"

definition setActive :: "string \<Rightarrow> ('p, 'q) Routine \<Rightarrow> ('p, 'q) Routine" where
  "setActive routineId routine = routine\<lparr>r_isActive := Val (r_id routine = Val routineId)\<rparr>"

definition activateRoutine ::
  "('p, 'q) services \<Rightarrow> ('p, 'q, 'st) storage \<Rightarrow> env \<Rightarrow> string \<Rightarrow> ('p, 'q, 'st) hook
     \<Rightarrow> unit outcome \<times> ('p, 'q, 'st) hook" where
  "activateRoutine svc sto e routineId h =
     (let h0 = h\<lparr>error := None\<rparr>
      in if isOffline e then
           let h1 = h0\<lparr>routines := map (markActive routineId) (routines h0)\<rparr>
           in (case getAllFromIndexedDB sto (store h1) of
                 Threw m \<Rightarrow> (Threw m, h1\<lparr>error := Some m\<rparr>)
               | Resolved existingRoutines \<Rightarrow>
                   (case saveToIndexedDB sto (map (markActive routineId) existingRoutines) (store h1) of
                      Threw m \<Rightarrow> (Threw m, h1\<lparr>error := Some m\<rparr>)
                    | Resolved st \<Rightarrow> (Resolved (), h1\<lparr>store := st\<rparr>)))
         else
           let h1 = h0\<lparr>remoteLog := remoteLog h0 @ [ActivateRoutine (Some routineId)]\<rparr>
           in (case activateRoutineService svc (length (remoteLog h0)) (Some routineId) of
                 Threw m \<Rightarrow> (Threw m, h1\<lparr>error := Some m\<rparr>)
               | Resolved u \<Rightarrow>
                   let h2 = h1\<lparr>routines := map (setActive routineId) (routines h1)\<rparr>
                   in (case getAllFromIndexedDB sto (store h2) of
                         Threw m \<Rightarrow> (Threw m, h2\<lparr>error := Some m\<rparr>)
                       | Resolved existingRoutines \<Rightarrow>
                           (case saveToIndexedDB sto (map (setActive routineId) existingRoutines)
                                   (store h2) of
                              Threw m \<Rightarrow> (Threw m, h2\<lparr>error := Some m\<rparr>)
                            | Resolved st \<Rightarrow> (Resolved (), h2\<lparr>store := st\<rparr>)))))"

section \<open>Notions used in the statements\<close>

text \<open>
  The remote calls the body of the loop submits for one routine, in order. They depend on
  the markers of the routine alone, not on the answers of the service.
\<close>

definition activationCalls :: "('p, 'q) Routine \<Rightarrow> ('p, 'q) call list" where
  "activationCalls routine =
     (if truthy (r_needsActivationSync routine) then [ActivateRoutine (rid routine)]
      else if truthy (r_needsDeactivationSync routine) then [DeactivateRoutine (rid routine)]
      else [])"

definition operations :: "('p, 'q) Routine \<Rightarrow> ('p, 'q) call list" where
  "operations routine =
     (if noOfflineChanges routine then []
      else if truthy (r_isOfflineDeleted routine) then [DeleteRoutine (rid routine)]
      else
        activationCalls routine
        @ (if truthy (r_isOffline routine) then [CreateRoutine (createData routine)]
           else if truthy (r_isOfflineUpdated routine)
                then [UpdateRoutine (rid routine) (updateData routine)]
           else []))"

text \<open>The marker of a routine that makes the body of the loop submit a call.\<close>

fun markerOf :: "('p, 'q) call \<Rightarrow> ('p, 'q) Routine \<Rightarrow> bool" where
  "markerOf (DeleteRoutine i) r = truthy (r_isOfflineDeleted r)"
| "markerOf (ActivateRoutine i) r = truthy (r_needsActivationSync r)"
| "markerOf (DeactivateRoutine i) r = truthy (r_needsDeactivationSync r)"
| "markerOf (CreateRoutine d) r = truthy (r_isOffline r)"
| "markerOf (UpdateRoutine i d) r = truthy (r_isOfflineUpdated r)"

text \<open>The marked slots the body of the loop reaches for one routine.\<close>

definition slotAttempts :: "('p, 'q) Routine \<Rightarrow> nat" where
  "slotAttempts routine =
     (if truthy (r_isOfflineDeleted routine) \<or> truthy (r_isOffline routine) then 0
      else length (filter slotMarked (slotsOrEmpty routine)))"

text \<open>The service rejects the call \<open>c\<close> when it is the call number \<open>k\<close>.\<close>

fun rejects :: "('p, 'q) services \<Rightarrow> nat \<Rightarrow> ('p, 'q) call \<Rightarrow> bool" where
  "rejects svc k (DeleteRoutine i) =
     (case deleteRoutineService svc k i of Threw m \<Rightarrow> True | Resolved u \<Rightarrow> False)"
| "rejects svc k (ActivateRoutine i) =
     (case activateRoutineService svc k i of Threw m \<Rightarrow> True | Resolved u \<Rightarrow> False)"
| "rejects svc k (DeactivateRoutine i) =
     (case deactivateRoutineService svc k i of Threw m \<Rightarrow> True | Resolved u \<Rightarrow> False)"
| "rejects svc k (CreateRoutine d) =
     (case createRoutineService svc k d of Threw m \<Rightarrow> True | Resolved n \<Rightarrow> False)"
| "rejects svc k (UpdateRoutine i d) =
     (case updateRoutineService svc k i d of Threw m \<Rightarrow> True | Resolved u \<Rightarrow> False)"

text \<open>
  How many of the calls \<open>cs\<close> the service rejects when they are submitted one after the
  other from the call number \<open>k\<close> on.
\<close>

fun countRejected :: "('p, 'q) services \<Rightarrow> nat \<Rightarrow> ('p, 'q) call list \<Rightarrow> nat" where
  "countRejected svc k [] = 0"
| "countRejected svc k (c # cs) = (if rejects svc k c then 1 else 0) + countRejected svc (Suc k) cs"


subsection \<open>Concrete routines, services and states\<close>

definition plainRoutine :: "string \<Rightarrow> string \<Rightarrow> (string, string) Routine" where
  "plainRoutine i n =
     \<lparr>r_id = Val i, r_name = Val n, r_isActive = Val False, r_slots = Absent, r_payload = Absent,
      r_isOffline = Absent, r_isOfflineUpdated = Absent, r_isOfflineDeleted = Absent,
      r_needsActivationSync = Absent, r_needsDeactivationSync = Absent\<rparr>"

definition plainSlot :: "string \<Rightarrow> string \<Rightarrow> string RoutineSlot" where
  "plainSlot i d =
     \<lparr>s_id = Val i, s_routineId = Absent, s_createdAt = Absent, s_payload = Val d,
      s_isOffline = Absent, s_isOfflineUpdated = Absent, s_isOfflineDeleted = Absent\<rparr>"

text \<open>
  A service that accepts every call; the record it creates is the data submitted with an
  identifier of its own.
\<close>

definition okServices :: "(string, string) services" where
  "okServices =
     \<lparr>createRoutineService = (\<lambda>k d. Resolved (d\<lparr>r_id := Val (''srv-'' @ replicate k (CHR ''i''))\<rparr>)),
      updateRoutineService = (\<lambda>k i d. Resolved ()),
      deleteRoutineService = (\<lambda>k i. Resolved ()),
      activateRoutineService = (\<lambda>k i. Resolved ()),
      deactivateRoutineService = (\<lambda>k i. Resolved ())\<rparr>"

text \<open>A service that rejects every call.\<close>

definition downServices :: "(string, string) services" where
  "downServices =
     \<lparr>createRoutineService = (\<lambda>k d. Threw ''network error''),
      updateRoutineService = (\<lambda>k i d. Threw ''network error''),
      deleteRoutineService = (\<lambda>k i. Threw ''network error''),
      activateRoutineService = (\<lambda>k i. Threw ''network error''),
      deactivateRoutineService = (\<lambda>k i. Threw ''network error'')\<rparr>"



definition online :: env where
  "online = \<lparr>isOffline = False, dateNow = ''1700000000000'', randomSuffix = ''k3x9q2a'',
             isoNow = ''2023-11-14T22:13:20.000Z''\<rparr>"

definition offline :: env where
  "offline = \<lparr>isOffline = True, dateNow = ''1700000000000'', randomSuffix = ''k3x9q2a'',
              isoNow = ''2023-11-14T22:13:20.000Z''\<rparr>"

definition idleHook ::
  "(string, string) Routine list \<Rightarrow> 'st \<Rightarrow> (string, string, 'st) hook" where
  "idleHook mem st =
     \<lparr>routines = mem, error = None, syncInProgress = False, store = st, cacheTimestamp = None,
      remoteLog = []\<rparr>"

section \<open>Properties\<close>

subsection \<open>Keys and arrays\<close>

lemma rid_simps [simp]:
  "rid (r\<lparr>r_isActive := a\<rparr>) = rid r"
  "rid (r\<lparr>r_slots := s\<rparr>) = rid r"
  "rid (r\<lparr>r_isOffline := b\<rparr>) = rid r"
  "rid (r\<lparr>r_isOfflineUpdated := b\<rparr>) = rid r"
  "rid (r\<lparr>r_isOfflineDeleted := b\<rparr>) = rid r"
  "rid (r\<lparr>r_needsActivationSync := b\<rparr>) = rid r"
  "rid (r\<lparr>r_needsDeactivationSync := b\<rparr>) = rid r"
  "rid (r\<lparr>r_id := i\<rparr>) = rd i"
  by (simp_all add: rid_def)

lemma rid_Val: "rid r = Some i \<longleftrightarrow> r_id r = Val i"
  by (cases "r_id r") (simp_all add: rid_def)

lemma rd_holding [simp]: "rd (holding x) = x"
  by (cases x) simp_all

lemma over_same [simp]: "over a a = a"
  by (cases a) simp_all





lemma findIndex_None: "findIndex P xs = None \<longleftrightarrow> (\<forall>x\<in>set xs. \<not> P x)"
  by (induction xs) auto







lemma distinct_filter_le1:
  "distinct (map g xs) \<Longrightarrow> length (filter (\<lambda>x. g x = v) xs) \<le> Suc 0"
proof (induction xs)
  case Nil
  then show ?case by simp
next
  case (Cons x xs)
  show ?case
  proof (cases "g x = v")
    case True
    with Cons.prems have "\<forall>y\<in>set xs. g y \<noteq> v" by (auto simp: image_iff)
    then have "filter (\<lambda>x. g x = v) xs = []" by (simp add: filter_empty_conv)
    with True show ?thesis by simp
  next
    case False
    with Cons show ?thesis by simp
  qed
qed

subsection \<open>The slot operations of a pass\<close>

text \<open>
  The three slot services are unbound identifiers: a marked slot that the loop reaches
  counts one error, and the slots of the routine stay as they are.
\<close>

lemma syncSlot_eq:
  "syncSlot routine slot l = (if slotMarked slot then l\<lparr>slotErrors := slotErrors l + 1\<rparr> else l)"
  by (simp add: syncSlot_def slotMarked_def deleteRoutineSlotService_def
      addRoutineSlotService_def updateRoutineSlotService_def)

lemma syncSlots_eq:
  "syncSlots routine slots l = l\<lparr>slotErrors := slotErrors l + length (filter slotMarked slots)\<rparr>"
  by (induction slots arbitrary: l) (simp_all add: syncSlot_eq)

lemma syncRoutineSlots_eq:
  "syncRoutineSlots routine p =
     p\<lparr>syncErrors := syncErrors p + length (filter slotMarked (slotsOrEmpty routine))\<rparr>"
  by (simp add: syncRoutineSlots_def slotsOrEmpty_def syncSlots_eq Let_def split: option.splits)

lemma slotAttempts_noOfflineChanges: "noOfflineChanges routine \<Longrightarrow> slotAttempts routine = 0"
  by (auto simp: noOfflineChanges_def slotAttempts_def slotsOrEmpty_def list_ex_iff filter_empty_conv
      split: option.splits)

subsection \<open>The calls of a pass\<close>

lemma calls_syncDelete: "calls (syncDelete svc routine p) = calls p @ [DeleteRoutine (rid routine)]"
  by (simp add: syncDelete_def Let_def split: outcome.splits)

lemma calls_syncActivation:
  "calls (syncActivation svc routine p) = calls p @ activationCalls routine"
  by (simp add: syncActivation_def activationCalls_def Let_def split: outcome.splits option.splits)

lemma calls_syncCreate:
  "calls (syncCreate svc routine p) = calls p @ [CreateRoutine (createData routine)]"
  by (simp add: syncCreate_def Let_def split: outcome.splits)

lemma calls_syncUpdate:
  "calls (syncUpdate svc routine p) = calls p @
     (if truthy (r_isOfflineUpdated routine) then [UpdateRoutine (rid routine) (updateData routine)] else [])"
  by (simp add: syncUpdate_def Let_def split: outcome.splits option.splits)

lemma calls_syncRoutine: "calls (syncRoutine svc routine p) = calls p @ operations routine"
  by (simp add: syncRoutine_def operations_def Let_def calls_syncDelete calls_syncActivation
      calls_syncCreate calls_syncUpdate syncRoutineSlots_eq)

lemma calls_syncLoop: "calls (syncLoop svc rs p) = calls p @ concat (map operations rs)"
  by (induction rs arbitrary: p) (simp_all add: calls_syncRoutine)





lemma markerOf_activationCalls: "c \<in> set (activationCalls r) \<Longrightarrow> markerOf c r"
  by (auto simp: activationCalls_def split: if_splits)

lemma markerOf_operations: "c \<in> set (operations r) \<Longrightarrow> markerOf c r"
  by (auto simp: operations_def dest: markerOf_activationCalls split: if_splits)

subsection \<open>The error counter\<close>

lemma countRejected_append:
  "countRejected svc k (xs @ ys) = countRejected svc k xs + countRejected svc (k + length xs) ys"
  by (induction xs arbitrary: k) simp_all



lemma syncErrors_syncDelete:
  "syncErrors (syncDelete svc routine p)
     = syncErrors p + countRejected svc (length (calls p)) [DeleteRoutine (rid routine)]"
  by (simp add: syncDelete_def Let_def split: outcome.splits)

lemma syncErrors_syncActivation:
  "syncErrors (syncActivation svc routine p)
     = syncErrors p + countRejected svc (length (calls p)) (activationCalls routine)"
  by (simp add: syncActivation_def activationCalls_def Let_def split: outcome.splits option.splits)

lemma syncErrors_syncCreate:
  "syncErrors (syncCreate svc routine p)
     = syncErrors p + countRejected svc (length (calls p)) [CreateRoutine (createData routine)]"
  by (simp add: syncCreate_def Let_def split: outcome.splits)

lemma syncErrors_syncUpdate:
  "syncErrors (syncUpdate svc routine p)
     = syncErrors p + countRejected svc (length (calls p))
         (if truthy (r_isOfflineUpdated routine) then [UpdateRoutine (rid routine) (updateData routine)] else [])"
  by (simp add: syncUpdate_def Let_def split: outcome.splits option.splits)

lemma syncErrors_syncRoutine:
  "syncErrors (syncRoutine svc routine p)
     = syncErrors p + countRejected svc (length (calls p)) (operations routine) + slotAttempts routine"
proof (cases "noOfflineChanges routine")
  case True
  then show ?thesis
    by (simp add: syncRoutine_def operations_def slotAttempts_noOfflineChanges)
next
  case nc: False
  show ?thesis
  proof (cases "truthy (r_isOfflineDeleted routine)")
    case True
    with nc show ?thesis
      by (simp add: syncRoutine_def operations_def slotAttempts_def syncErrors_syncDelete)
  next
    case nd: False
    let ?pa = "syncActivation svc routine p"
    have len: "length (calls ?pa) = length (calls p) + length (activationCalls routine)"
      by (simp add: calls_syncActivation)
    show ?thesis
    proof (cases "truthy (r_isOffline routine)")
      case True
      with nc nd have "syncRoutine svc routine p = syncCreate svc routine ?pa"
        by (simp add: syncRoutine_def Let_def)
      with nc nd True show ?thesis
        by (simp add: operations_def slotAttempts_def syncErrors_syncCreate syncErrors_syncActivation
            countRejected_append len del: countRejected.simps)
    next
      case False
      with nc nd have "syncRoutine svc routine p = syncRoutineSlots routine (syncUpdate svc routine ?pa)"
        by (simp add: syncRoutine_def Let_def)
      with nc nd False show ?thesis
        by (simp add: operations_def slotAttempts_def syncErrors_syncUpdate syncErrors_syncActivation
            countRejected_append len syncRoutineSlots_eq del: countRejected.simps)
    qed
  qed
qed

lemma syncErrors_syncLoop:
  "syncErrors (syncLoop svc rs p)
     = syncErrors p + countRejected svc (length (calls p)) (concat (map operations rs))
       + sum_list (map slotAttempts rs)"
proof (induction rs arbitrary: p)
  case Nil
  then show ?case by simp
next
  case (Cons r rs)
  have "length (calls (syncRoutine svc r p)) = length (calls p) + length (operations r)"
    by (simp add: calls_syncRoutine)
  then show ?case
    by (simp add: Cons.IH syncErrors_syncRoutine countRejected_append del: countRejected.simps)
qed

subsection \<open>The change flag\<close>







subsection \<open>Records of other identifiers\<close>









subsection \<open>The trigger\<close>

lemma guard_blocks:
  "isOffline e \<or> seenInProgress \<Longrightarrow> syncOfflineChangesEnhanced svc sto e seenInProgress h = (Resolved (), h)"
  by (auto simp: syncOfflineChangesEnhanced_def syncBegin_def)

lemma guard_passes:
  "\<not> isOffline e \<Longrightarrow>
   syncOfflineChangesEnhanced svc sto e False h = (Resolved (), syncRest svc sto e (h\<lparr>syncInProgress := True\<rparr>))"
  by (simp add: syncOfflineChangesEnhanced_def syncBegin_def)

lemma fst_syncOfflineChangesEnhanced:
  "fst (syncOfflineChangesEnhanced svc sto e seenInProgress h) = Resolved ()"
  by (simp add: syncOfflineChangesEnhanced_def split: prod.splits)

lemma syncInProgress_syncRest: "\<not> syncInProgress (syncRest svc sto e h1)"
  by (simp add: syncRest_def Let_def split: outcome.splits)

lemma remoteLog_syncRest:
  "getAllFromIndexedDB sto (store h1) = Resolved offlineRoutines \<Longrightarrow>
   remoteLog (syncRest svc sto e h1) = remoteLog h1 @ concat (map operations offlineRoutines)"
  by (simp add: syncRest_def Let_def calls_syncLoop startPass_def split: outcome.splits)

text \<open>
  A function object of a render that saw the flag cleared runs a whole pass, although a
  first call has set the flag.
\<close>

lemma stale_guard_submits_calls:
  assumes "\<not> isOffline e" and "getAllFromIndexedDB sto (store h) = Resolved offlineRoutines"
  shows "remoteLog (snd (syncOfflineChangesEnhanced svc sto e False (snd (syncBegin e False h))))
           = remoteLog h @ concat (map operations offlineRoutines)"
proof -
  let ?h1 = "snd (syncBegin e False h)"
  have h1: "?h1 = h\<lparr>syncInProgress := True\<rparr>" using assms(1) by (simp add: syncBegin_def)
  have "getAllFromIndexedDB sto (store (?h1\<lparr>syncInProgress := True\<rparr>)) = Resolved offlineRoutines"
    using assms(2) by (simp add: h1)
  from remoteLog_syncRest [OF this, of svc e] show ?thesis
    by (simp add: guard_passes [OF assms(1)] h1)
qed


lemma error_syncRest:
  assumes "getAllFromIndexedDB sto (store h1) = Resolved offlineRoutines"
  shows "error (syncRest svc sto e h1) = error h1
       \<or> (\<exists>m. saveToIndexedDB sto
                 (syncedRoutines (syncLoop svc offlineRoutines (startPass offlineRoutines (remoteLog h1))))
                 (store h1) = Threw m)"
  using assms by (simp add: syncRest_def Let_def split: outcome.splits)


lemma disabled_syncRest:
  "syncRest svc disabledStorage e h1 = h1\<lparr>syncInProgress := False\<rparr>"
  by (simp add: syncRest_def disabledStorage_def startPass_def Let_def)

subsection \<open>The activation of a routine\<close>

lemma activateRoutine_routines:
  assumes "activateRoutine svc sto e routineId h = (Resolved (), h')"
  shows "routines h' = map (markActive routineId) (routines h)
       \<or> routines h' = map (setActive routineId) (routines h)"
  using assms
  by (auto simp: activateRoutine_def Let_def split: if_splits outcome.splits)

subsection \<open>The deletion of a slot\<close>

lemma slotsOrEmpty_holding:
  "slotsOrEmpty (x\<lparr>r_slots := holding (map_option f (rd (r_slots x)))\<rparr>)
     = (case rd (r_slots x) of None \<Rightarrow> [] | Some slots \<Rightarrow> f slots)"
  by (cases "rd (r_slots x)") (simp_all add: slotsOrEmpty_def)

lemma markDeleted_eq:
  "markDeleted slotId slots =
     map (\<lambda>slot. if s_id slot = Val slotId then slot\<lparr>s_isOfflineDeleted := Val True\<rparr> else slot)
       (filter (\<lambda>slot. \<not> (s_id slot = Val slotId \<and> truthy (s_isOffline slot))) slots)"
  unfolding markDeleted_def by (induction slots) simp_all

subsection \<open>The record of a routine during its turn\<close>


















subsection \<open>The claims about the reconciliation pass\<close>

text \<open>
  Claim C2. With the storage module of the sources, reading resolves with the empty array
  and saving does nothing; every invocation of \<^verbatim>\<open>syncOfflineChangesEnhanced\<close> then resolves as
  the stub \<^verbatim>\<open>syncOfflineChanges\<close> does and leaves the state as it was, but for the flag
  \<open>syncInProgress\<close>, which a pass clears: no remote call, the same collection in memory,
  the same store. Called from the render that saw the current flag, it returns exactly
  what the stub returns.
\<close>

theorem shipped_build_pass_is_noop:
  "syncOfflineChangesEnhanced svc disabledStorage e (syncInProgress h) h = syncOfflineChanges h
   \<and> fst (syncOfflineChangesEnhanced svc disabledStorage e seenInProgress h) = fst (syncOfflineChanges h)
   \<and> (snd (syncOfflineChangesEnhanced svc disabledStorage e seenInProgress h))
        \<lparr>syncInProgress := syncInProgress h\<rparr> = snd (syncOfflineChanges h)
   \<and> remoteLog (snd (syncOfflineChangesEnhanced svc disabledStorage e seenInProgress h)) = remoteLog h
   \<and> routines (snd (syncOfflineChangesEnhanced svc disabledStorage e seenInProgress h)) = routines h
   \<and> store (snd (syncOfflineChangesEnhanced svc disabledStorage e seenInProgress h)) = store h"
  by (simp add: syncOfflineChangesEnhanced_def syncBegin_def syncRest_def syncOfflineChanges_def
      disabledStorage_def startPass_def Let_def)

theorem shipped_build_pass_is_noop_witness:
  "syncOfflineChangesEnhanced okServices disabledStorage online False
      (idleHook [(plainRoutine ''r-7'' ''Physics'')\<lparr>r_isOfflineDeleted := Val True\<rparr>] (5::nat))
   = (Resolved (), idleHook [(plainRoutine ''r-7'' ''Physics'')\<lparr>r_isOfflineDeleted := Val True\<rparr>] 5)"
  using shipped_build_pass_is_noop
    [of okServices online "idleHook [(plainRoutine ''r-7'' ''Physics'')\<lparr>r_isOfflineDeleted := Val True\<rparr>] (5::nat)"]
  by (simp add: syncOfflineChanges_def idleHook_def)







text \<open>
  Claim C6. The guard of line 191 reads the constant \<open>syncInProgress\<close> of the render that
  made the function object. A function object of a render that saw the flag cleared
  passes the guard online whatever the flag is when it is called: called a second time
  before React renders again, while the pass of the first call waits for the store, it
  sets the flag again, runs a pass of its own and clears the flag, although the first
  pass has not ended.
\<close>

theorem stale_guard_starts_second_pass:
  "fst (syncBegin (e\<lparr>isOffline := False\<rparr>) False h)
   \<and> syncInProgress (snd (syncBegin (e\<lparr>isOffline := False\<rparr>) False h))
   \<and> fst (syncBegin (e\<lparr>isOffline := False\<rparr>) False (snd (syncBegin (e\<lparr>isOffline := False\<rparr>) False h)))
   \<and> snd (syncOfflineChangesEnhanced svc disabledStorage (e\<lparr>isOffline := False\<rparr>) False
            (snd (syncBegin (e\<lparr>isOffline := False\<rparr>) False h)))
       = h\<lparr>syncInProgress := False\<rparr>
   \<and> syncInProgress (snd (syncOfflineChangesEnhanced svc disabledStorage (e\<lparr>isOffline := False\<rparr>) False
            (snd (syncBegin (e\<lparr>isOffline := False\<rparr>) False h))))
       \<noteq> syncInProgress (snd (syncBegin (e\<lparr>isOffline := False\<rparr>) False h))"
  by (simp add: syncOfflineChangesEnhanced_def syncBegin_def disabled_syncRest)

text \<open>
  Claim C7. Every invocation of the trigger resolves, whatever the services and the
  storage functions answer. When the store gives the collection \<open>offlineRoutines\<close>, a pass
  (\<open>syncRest\<close>, what the trigger runs past its guard) submits the calls of all the records,
  rejected or not; when the loop ends its error counter holds one for each call the
  service rejected and one for each marked slot reached; the flag \<open>syncInProgress\<close> is
  cleared; and the error of the hook is set only when saving to the store throws, never
  by a rejected remote call.
\<close>

theorem trigger_never_rejects:
  assumes rd: "getAllFromIndexedDB sto (store h) = Resolved offlineRoutines"
    and on: "\<not> isOffline e"
  shows "fst (syncOfflineChangesEnhanced svc sto e False h) = Resolved ()
       \<and> fst (syncOfflineChangesEnhanced svc2 sto2 e2 seen2 h2) = Resolved ()
       \<and> remoteLog (snd (syncOfflineChangesEnhanced svc sto e False h))
           = remoteLog h @ concat (map operations offlineRoutines)
       \<and> syncErrors (syncLoop svc offlineRoutines (startPass offlineRoutines (remoteLog h)))
           = countRejected svc (length (remoteLog h)) (concat (map operations offlineRoutines))
             + sum_list (map slotAttempts offlineRoutines)
       \<and> \<not> syncInProgress (snd (syncOfflineChangesEnhanced svc sto e False h))
       \<and> \<not> syncInProgress (syncRest svc2 sto2 e2 h2)
       \<and> (error (snd (syncOfflineChangesEnhanced svc sto e False h)) = error h
          \<or> (\<exists>m. saveToIndexedDB sto
                    (syncedRoutines (syncLoop svc offlineRoutines (startPass offlineRoutines (remoteLog h))))
                    (store h) = Threw m))"
proof -
  let ?h1 = "h\<lparr>syncInProgress := True\<rparr>"
  have run: "syncOfflineChangesEnhanced svc sto e False h = (Resolved (), syncRest svc sto e ?h1)"
    using on by (rule guard_passes)
  have rd1: "getAllFromIndexedDB sto (store ?h1) = Resolved offlineRoutines" using rd by simp
  have 1: "fst (syncOfflineChangesEnhanced svc sto e False h) = Resolved ()"
    by (rule fst_syncOfflineChangesEnhanced)
  have 2: "fst (syncOfflineChangesEnhanced svc2 sto2 e2 seen2 h2) = Resolved ()"
    by (rule fst_syncOfflineChangesEnhanced)
  have 3: "remoteLog (snd (syncOfflineChangesEnhanced svc sto e False h))
           = remoteLog h @ concat (map operations offlineRoutines)"
    using remoteLog_syncRest [OF rd1, of svc e] by (simp add: run)
  have 4: "syncErrors (syncLoop svc offlineRoutines (startPass offlineRoutines (remoteLog h)))
           = countRejected svc (length (remoteLog h)) (concat (map operations offlineRoutines))
             + sum_list (map slotAttempts offlineRoutines)"
    by (simp add: syncErrors_syncLoop startPass_def)
  have 5: "\<not> syncInProgress (snd (syncOfflineChangesEnhanced svc sto e False h))"
    by (simp add: run syncInProgress_syncRest)
  have 6: "\<not> syncInProgress (syncRest svc2 sto2 e2 h2)" by (rule syncInProgress_syncRest)
  have 7: "error (snd (syncOfflineChangesEnhanced svc sto e False h)) = error h
          \<or> (\<exists>m. saveToIndexedDB sto
                    (syncedRoutines (syncLoop svc offlineRoutines (startPass offlineRoutines (remoteLog h))))
                    (store h) = Threw m)"
    using error_syncRest [OF rd1, of svc e] by (simp add: run)
  show ?thesis by (intro conjI 1 2 3 4 5 6 7)
qed

theorem trigger_never_rejects_witness:
  "getAllFromIndexedDB \<lparr>getAllFromIndexedDB = Resolved, saveToIndexedDB = (\<lambda>data st. Resolved data)\<rparr>
      (store (idleHook []
         [(plainRoutine ''r-1'' ''Algebra'')\<lparr>r_isOfflineDeleted := Val True\<rparr>,
          (plainRoutine ''r-2'' ''Physics'')\<lparr>r_needsActivationSync := Val True, r_isOfflineUpdated := Val True\<rparr>]))
     = Resolved
         [(plainRoutine ''r-1'' ''Algebra'')\<lparr>r_isOfflineDeleted := Val True\<rparr>,
          (plainRoutine ''r-2'' ''Physics'')\<lparr>r_needsActivationSync := Val True, r_isOfflineUpdated := Val True\<rparr>]
   \<and> \<not> isOffline online
   \<and> fst (syncOfflineChangesEnhanced downServices
        \<lparr>getAllFromIndexedDB = Resolved, saveToIndexedDB = (\<lambda>data st. Resolved data)\<rparr> online False
        (idleHook []
         [(plainRoutine ''r-1'' ''Algebra'')\<lparr>r_isOfflineDeleted := Val True\<rparr>,
          (plainRoutine ''r-2'' ''Physics'')\<lparr>r_needsActivationSync := Val True, r_isOfflineUpdated := Val True\<rparr>]))
       = Resolved ()
   \<and> syncErrors (syncLoop downServices
        [(plainRoutine ''r-1'' ''Algebra'')\<lparr>r_isOfflineDeleted := Val True\<rparr>,
         (plainRoutine ''r-2'' ''Physics'')\<lparr>r_needsActivationSync := Val True, r_isOfflineUpdated := Val True\<rparr>]
        (startPass
          [(plainRoutine ''r-1'' ''Algebra'')\<lparr>r_isOfflineDeleted := Val True\<rparr>,
           (plainRoutine ''r-2'' ''Physics'')\<lparr>r_needsActivationSync := Val True, r_isOfflineUpdated := Val True\<rparr>]
          [])) = 3"
proof -
  let ?sto = "\<lparr>getAllFromIndexedDB = Resolved, saveToIndexedDB = (\<lambda>data st. Resolved data)\<rparr>
                :: (string, string, (string, string) Routine list) storage"
  let ?a = "(plainRoutine ''r-1'' ''Algebra'')\<lparr>r_isOfflineDeleted := Val True\<rparr>"
  let ?b = "(plainRoutine ''r-2'' ''Physics'')\<lparr>r_needsActivationSync := Val True, r_isOfflineUpdated := Val True\<rparr>"
  let ?h = "idleHook [] [?a, ?b]"
  have rd: "getAllFromIndexedDB ?sto (store ?h) = Resolved [?a, ?b]" by (simp add: idleHook_def)
  have on: "\<not> isOffline online" by (simp add: online_def)
  have oa: "operations ?a = [DeleteRoutine (Some ''r-1'')]"
    by (simp add: operations_def noOfflineChanges_def truthy_def plainRoutine_def rid_def)
  have ob: "operations ?b = [ActivateRoutine (Some ''r-2''), UpdateRoutine (Some ''r-2'') (updateData ?b)]"
    by (simp add: operations_def activationCalls_def noOfflineChanges_def truthy_def plainRoutine_def rid_def)
  have sa: "slotAttempts ?a = 0" by (simp add: slotAttempts_def truthy_def)
  have sb: "slotAttempts ?b = 0" by (simp add: slotAttempts_def slotsOrEmpty_def plainRoutine_def)
  have cnt: "countRejected downServices (length (remoteLog ?h)) (concat (map operations [?a, ?b]))
               + sum_list (map slotAttempts [?a, ?b]) = 3"
    by (simp add: oa ob sa sb idleHook_def downServices_def)
  from trigger_never_rejects [OF rd on, of downServices]
  have f: "fst (syncOfflineChangesEnhanced downServices ?sto online False ?h) = Resolved ()"
    and c: "syncErrors (syncLoop downServices [?a, ?b] (startPass [?a, ?b] (remoteLog ?h)))
           = countRejected downServices (length (remoteLog ?h)) (concat (map operations [?a, ?b]))
             + sum_list (map slotAttempts [?a, ?b])"
    by blast+
  have l: "remoteLog ?h = []" by (simp add: idleHook_def)
  from c cnt have c': "syncErrors (syncLoop downServices [?a, ?b] (startPass [?a, ?b] [])) = 3"
    by (simp only: l)
  show ?thesis by (intro conjI rd on f c')
qed

subsection \<open>The claims about the other functions of the hook\<close>

text \<open>
  Claim C8, as stated: a create performed while the remote service is unreachable yields
  a local record with a temporary identifier and a create marker, for routines as for
  slots. For routines it fails: \<^verbatim>\<open>handleCreateRoutine\<close> throws when the system is offline
  and the collection stays as it was.
\<close>

theorem offline_routine_create_fails:
  "fst (handleCreateRoutine okServices offline (plainRoutine [] ''Algebra'') (idleHook [] (0::nat)))
     = Threw ''Cannot create routines while offline. Please connect to the internet and try again.''
   \<and> routines (snd (handleCreateRoutine okServices offline (plainRoutine [] ''Algebra'')
                       (idleHook [] (0::nat)))) = []"
  by (simp add: handleCreateRoutine_def offline_def idleHook_def)

text \<open>
  Claim C8, amended. Offline, creating a routine throws and changes nothing. Offline,
  adding a slot throws \<open>Routine not found\<close> when the store does not hold the routine, which
  is always so with the storage module of the sources; when the store holds the routine
  and saving resolves, it returns the given slot with the identifier
  \<^verbatim>\<open>temp-slot-<time>-<random>\<close>, the identifier of the routine and the marker
  \<^verbatim>\<open>_isOffline\<close>, appends it to the slots of the routine in memory and in the collection
  it saves to the store, and submits no remote call.
\<close>

theorem offline_create_behaviour:
  assumes off: "isOffline e"
  shows "handleCreateRoutine svc e routine h =
           (Threw ''Cannot create routines while offline. Please connect to the internet and try again.'', h)
       \<and> addRoutineSlot disabledStorage e routineId slot h =
           (Threw ''Routine not found'', h\<lparr>error := Some ''Routine not found''\<rparr>)
       \<and> (\<forall>rs. getAllFromIndexedDB sto (store h) = Resolved rs
               \<and> (\<forall>r\<in>set rs. r_id r \<noteq> Val routineId)
            \<longrightarrow> fst (addRoutineSlot sto e routineId slot h) = Threw ''Routine not found'')
       \<and> (\<forall>rs. getAllFromIndexedDB sto (store h) = Resolved rs
               \<and> (\<exists>r\<in>set rs. r_id r = Val routineId)
               \<and> (\<forall>data. \<exists>st. saveToIndexedDB sto data (store h) = Resolved st)
            \<longrightarrow> (\<exists>newSlot h'. addRoutineSlot sto e routineId slot h = (Resolved newSlot, h')
                   \<and> newSlot = slot\<lparr>s_id := Val (''temp-slot-'' @ dateNow e @ ''-'' @ randomSuffix e),
                                     s_routineId := Val routineId, s_createdAt := Val (isoNow e),
                                     s_isOffline := Val True\<rparr>
                   \<and> routines h' = map (\<lambda>r. if r_id r = Val routineId
                                              then r\<lparr>r_slots := Val (slotsOrEmpty r @ [newSlot])\<rparr>
                                              else r) (routines h)
                   \<and> (\<exists>i. findIndex (\<lambda>r. r_id r = Val routineId) rs = Some i
                          \<and> saveToIndexedDB sto
                                (rs[i := (rs ! i)\<lparr>r_slots := Val (slotsOrEmpty (rs ! i) @ [newSlot])\<rparr>])
                                (store h) = Resolved (store h'))
                   \<and> remoteLog h' = remoteLog h))"
proof -
  have 1: "handleCreateRoutine svc e routine h =
           (Threw ''Cannot create routines while offline. Please connect to the internet and try again.'', h)"
    using off by (simp add: handleCreateRoutine_def)
  have 2: "addRoutineSlot disabledStorage e routineId slot h =
           (Threw ''Routine not found'', h\<lparr>error := Some ''Routine not found''\<rparr>)"
    using off by (simp add: addRoutineSlot_def disabledStorage_def Let_def)
  have 3: "fst (addRoutineSlot sto e routineId slot h) = Threw ''Routine not found''"
    if "getAllFromIndexedDB sto (store h) = Resolved rs" "\<forall>r\<in>set rs. r_id r \<noteq> Val routineId" for rs
  proof -
    from that(2) have "findIndex (\<lambda>r. r_id r = Val routineId) rs = None"
      by (simp add: findIndex_None)
    with that(1) off show ?thesis by (simp add: addRoutineSlot_def Let_def)
  qed
  have 4: "\<exists>newSlot h'. addRoutineSlot sto e routineId slot h = (Resolved newSlot, h')
                   \<and> newSlot = slot\<lparr>s_id := Val (''temp-slot-'' @ dateNow e @ ''-'' @ randomSuffix e),
                                     s_routineId := Val routineId, s_createdAt := Val (isoNow e),
                                     s_isOffline := Val True\<rparr>
                   \<and> routines h' = map (\<lambda>r. if r_id r = Val routineId
                                              then r\<lparr>r_slots := Val (slotsOrEmpty r @ [newSlot])\<rparr>
                                              else r) (routines h)
                   \<and> (\<exists>i. findIndex (\<lambda>r. r_id r = Val routineId) rs = Some i
                          \<and> saveToIndexedDB sto
                                (rs[i := (rs ! i)\<lparr>r_slots := Val (slotsOrEmpty (rs ! i) @ [newSlot])\<rparr>])
                                (store h) = Resolved (store h'))
                   \<and> remoteLog h' = remoteLog h"
    if g: "getAllFromIndexedDB sto (store h) = Resolved rs" and ex: "\<exists>r\<in>set rs. r_id r = Val routineId"
      and sv: "\<forall>data. \<exists>st. saveToIndexedDB sto data (store h) = Resolved st" for rs
  proof -
    from ex obtain i where i: "findIndex (\<lambda>r. r_id r = Val routineId) rs = Some i"
      using findIndex_None [of "\<lambda>r. r_id r = Val routineId" rs]
      by (cases "findIndex (\<lambda>r. r_id r = Val routineId) rs") auto
    let ?new = "slot\<lparr>s_id := Val (''temp-slot-'' @ dateNow e @ ''-'' @ randomSuffix e),
                                     s_routineId := Val routineId, s_createdAt := Val (isoNow e),
                                     s_isOffline := Val True\<rparr>"
    from sv obtain st where
      "saveToIndexedDB sto (rs[i := (rs ! i)\<lparr>r_slots := Val (slotsOrEmpty (rs ! i) @ [?new])\<rparr>]) (store h) = Resolved st"
      by blast
    with g i off show ?thesis by (simp add: addRoutineSlot_def Let_def)
  qed
  from 1 2 3 4 show ?thesis by blast
qed

theorem offline_create_behaviour_witness:
  "isOffline offline
   \<and> getAllFromIndexedDB \<lparr>getAllFromIndexedDB = Resolved, saveToIndexedDB = (\<lambda>data st. Resolved data)\<rparr>
       (store (idleHook [plainRoutine ''r-1'' ''Algebra''] [plainRoutine ''r-1'' ''Algebra'']))
       = Resolved [plainRoutine ''r-1'' ''Algebra'']
   \<and> fst (addRoutineSlot \<lparr>getAllFromIndexedDB = Resolved, saveToIndexedDB = (\<lambda>data st. Resolved data)\<rparr>
            offline ''r-1'' (plainSlot [] ''Mon'')
            (idleHook [plainRoutine ''r-1'' ''Algebra''] [plainRoutine ''r-1'' ''Algebra'']))
       = Resolved ((plainSlot [] ''Mon'')
            \<lparr>s_id := Val ''temp-slot-1700000000000-k3x9q2a'', s_routineId := Val ''r-1'',
             s_createdAt := Val ''2023-11-14T22:13:20.000Z'', s_isOffline := Val True\<rparr>)
   \<and> fst (addRoutineSlot disabledStorage offline ''r-1'' (plainSlot [] ''Mon'')
            (idleHook [plainRoutine ''r-1'' ''Algebra''] [plainRoutine ''r-1'' ''Algebra'']))
       = Threw ''Routine not found''"
proof -
  let ?sto = "\<lparr>getAllFromIndexedDB = Resolved, saveToIndexedDB = (\<lambda>data st. Resolved data)\<rparr>
                :: (string, string, (string, string) Routine list) storage"
  let ?h = "idleHook [plainRoutine ''r-1'' ''Algebra''] [plainRoutine ''r-1'' ''Algebra'']"
  have off: "isOffline offline" by (simp add: offline_def)
  have g: "getAllFromIndexedDB ?sto (store ?h) = Resolved [plainRoutine ''r-1'' ''Algebra'']"
    by (simp add: idleHook_def)
  have ex: "\<exists>r\<in>set [plainRoutine ''r-1'' ''Algebra'']. r_id r = Val ''r-1''"
    by (simp add: plainRoutine_def)
  have sv: "\<forall>data. \<exists>st. saveToIndexedDB ?sto data (store ?h) = Resolved st"
    by simp
  note all = offline_create_behaviour [OF off, of okServices "plainRoutine [] ''Algebra''" ?h "''r-1''"
      "plainSlot [] ''Mon''" ?sto]
  from all g ex sv
  have "\<exists>newSlot h'. addRoutineSlot ?sto offline ''r-1'' (plainSlot [] ''Mon'') ?h = (Resolved newSlot, h')
          \<and> newSlot = (plainSlot [] ''Mon'')\<lparr>s_id := Val (''temp-slot-'' @ dateNow offline @ ''-'' @ randomSuffix offline),
                                     s_routineId := Val ''r-1'', s_createdAt := Val (isoNow offline),
                                     s_isOffline := Val True\<rparr>"
    by blast
  then have "fst (addRoutineSlot ?sto offline ''r-1'' (plainSlot [] ''Mon'') ?h)
     = Resolved ((plainSlot [] ''Mon'')\<lparr>s_id := Val (''temp-slot-'' @ dateNow offline @ ''-'' @ randomSuffix offline),
                                     s_routineId := Val ''r-1'', s_createdAt := Val (isoNow offline),
                                     s_isOffline := Val True\<rparr>)"
    by auto
  then have a: "fst (addRoutineSlot ?sto offline ''r-1'' (plainSlot [] ''Mon'') ?h)
     = Resolved ((plainSlot [] ''Mon'')
            \<lparr>s_id := Val ''temp-slot-1700000000000-k3x9q2a'', s_routineId := Val ''r-1'',
             s_createdAt := Val ''2023-11-14T22:13:20.000Z'', s_isOffline := Val True\<rparr>)"
    by (simp add: offline_def)
  from all have "addRoutineSlot disabledStorage offline ''r-1'' (plainSlot [] ''Mon'') ?h =
           (Threw ''Routine not found'', ?h\<lparr>error := Some ''Routine not found''\<rparr>)"
    by blast
  then have b: "fst (addRoutineSlot disabledStorage offline ''r-1'' (plainSlot [] ''Mon'') ?h)
                  = Threw ''Routine not found''"
    by simp
  show ?thesis by (intro conjI off g a b)
qed

text \<open>
  Claim C9. After a call of \<^verbatim>\<open>activateRoutine\<close> that resolves, online or offline, every
  routine in memory is active exactly when its identifier is the given one; the
  identifiers are those of before, and when they are distinct at most one routine is
  active.
\<close>

theorem activateRoutine_single_active:
  assumes "activateRoutine svc sto e routineId h = (Resolved (), h')"
  shows "(\<forall>r\<in>set (routines h'). r_isActive r = Val (r_id r = Val routineId)) \<and>
         map r_id (routines h') = map r_id (routines h) \<and>
         (distinct (map r_id (routines h)) \<longrightarrow>
            length (filter (\<lambda>r. r_isActive r = Val True) (routines h')) \<le> 1)"
proof -
  from activateRoutine_routines [OF assms]
  have a: "\<forall>r\<in>set (routines h'). r_isActive r = Val (r_id r = Val routineId)"
    and b: "map r_id (routines h') = map r_id (routines h)"
    by (auto simp: markActive_def setActive_def)
  have c: "length (filter (\<lambda>r. r_isActive r = Val True) (routines h')) \<le> 1"
    if d: "distinct (map r_id (routines h))"
  proof -
    have "filter (\<lambda>r. r_isActive r = Val True) (routines h')
          = filter (\<lambda>r. r_id r = Val routineId) (routines h')"
      using a by (intro filter_cong) auto
    moreover have "distinct (map r_id (routines h'))" using b d by simp
    ultimately show ?thesis using distinct_filter_le1 [of r_id "routines h'" "Val routineId"] by simp
  qed
  from a b c show ?thesis by blast
qed

theorem activateRoutine_single_active_witness:
  "fst (activateRoutine okServices disabledStorage online ''r-2''
          (idleHook [(plainRoutine ''r-1'' ''Algebra'')\<lparr>r_isActive := Val True\<rparr>, plainRoutine ''r-2'' ''Physics''] (0::nat))) = Resolved ()
   \<and> distinct (map r_id [(plainRoutine ''r-1'' ''Algebra'')\<lparr>r_isActive := Val True\<rparr>, plainRoutine ''r-2'' ''Physics''])
   \<and> length (filter (\<lambda>r. r_isActive r = Val True)
        (routines (snd (activateRoutine okServices disabledStorage online ''r-2''
          (idleHook [(plainRoutine ''r-1'' ''Algebra'')\<lparr>r_isActive := Val True\<rparr>, plainRoutine ''r-2'' ''Physics''] (0::nat)))))) \<le> 1"
proof -
  let ?h = "idleHook [(plainRoutine ''r-1'' ''Algebra'')\<lparr>r_isActive := Val True\<rparr>, plainRoutine ''r-2'' ''Physics''] (0::nat)"
  have f: "fst (activateRoutine okServices disabledStorage online ''r-2'' ?h) = Resolved ()"
    by (simp add: activateRoutine_def okServices_def disabledStorage_def online_def idleHook_def Let_def)
  then have eq: "activateRoutine okServices disabledStorage online ''r-2'' ?h
                  = (Resolved (), snd (activateRoutine okServices disabledStorage online ''r-2'' ?h))"
    by (metis prod.collapse)
  have d: "distinct (map r_id [(plainRoutine ''r-1'' ''Algebra'')\<lparr>r_isActive := Val True\<rparr>, plainRoutine ''r-2'' ''Physics''])"
    by (simp add: plainRoutine_def)
  have d': "distinct (map r_id (routines ?h))"
    by (simp add: idleHook_def plainRoutine_def)
  from activateRoutine_single_active [OF eq] d'
  have "length (filter (\<lambda>r. r_isActive r = Val True)
          (routines (snd (activateRoutine okServices disabledStorage online ''r-2'' ?h)))) \<le> 1"
    by blast
  with f d show ?thesis by blast
qed

text \<open>
  Claim C10, as stated: offline, a slot without the create marker is kept and marked
  \<^verbatim>\<open>_isOfflineDeleted\<close> for a later replay. With the storage module of the sources the slot
  \<open>s-2\<close>, which the server knows, is dropped from the routine in memory; the store, which
  reads as the empty array before and after, holds no routine and no marker, and a later
  pass submits nothing: the deletion is replayed by no one.
\<close>

theorem offline_server_slot_delete_lost:
  "deleteRoutineSlot disabledStorage offline ''r-1'' ''s-2''
     (idleHook [(plainRoutine ''r-1'' ''Algebra'')\<lparr>r_slots := Val [plainSlot ''s-2'' ''Tue'']\<rparr>] (0::nat))
     = (Resolved (), idleHook [(plainRoutine ''r-1'' ''Algebra'')\<lparr>r_slots := Val []\<rparr>] 0)
   \<and> getAllFromIndexedDB (disabledStorage :: (string, string, nat) storage)
        (store (snd (deleteRoutineSlot disabledStorage offline ''r-1'' ''s-2''
          (idleHook [(plainRoutine ''r-1'' ''Algebra'')\<lparr>r_slots := Val [plainSlot ''s-2'' ''Tue'']\<rparr>] (0::nat)))))
     = Resolved []
   \<and> remoteLog (snd (syncOfflineChangesEnhanced okServices disabledStorage online False
        (snd (deleteRoutineSlot disabledStorage offline ''r-1'' ''s-2''
          (idleHook [(plainRoutine ''r-1'' ''Algebra'')\<lparr>r_slots := Val [plainSlot ''s-2'' ''Tue'']\<rparr>] (0::nat))))))
     = []"
  by (simp add: deleteRoutineSlot_def disabledStorage_def offline_def online_def idleHook_def
      dropSlot_def plainRoutine_def plainSlot_def syncOfflineChangesEnhanced_def syncBegin_def
      syncRest_def startPass_def Let_def)

text \<open>
  Claim C10, amended. Offline, with the storage module of the sources, \<^verbatim>\<open>deleteRoutineSlot\<close>
  resolves, submits no remote call and stores nothing; in memory it leaves no slot of
  the given identifier in the routines of the given identifier, whether the slot carries
  the create marker or not, and the other routines as they are; no marker is kept and a
  later pass submits no call. Only for a store that holds the routine is a collection
  saved: that of the store, in which the slots of the routine are those that are not the
  given slot created offline, the given slot among them marked \<^verbatim>\<open>_isOfflineDeleted\<close>.
\<close>

theorem offline_slot_delete_behaviour:
  assumes off: "isOffline e"
  shows "deleteRoutineSlot disabledStorage e routineId slotId h
           = (Resolved (), h\<lparr>error := None, routines := dropSlot routineId slotId (routines h)\<rparr>)
       \<and> (\<forall>r\<in>set (dropSlot routineId slotId (routines h)).
             r_id r = Val routineId \<longrightarrow> (\<forall>s\<in>set (slotsOrEmpty r). s_id s \<noteq> Val slotId))
       \<and> (\<forall>r\<in>set (routines h). r_id r \<noteq> Val routineId \<longrightarrow> r \<in> set (dropSlot routineId slotId (routines h)))
       \<and> remoteLog (snd (syncOfflineChangesEnhanced svc disabledStorage e2 seen2
                          (snd (deleteRoutineSlot disabledStorage e routineId slotId h)))) = remoteLog h
       \<and> (\<forall>rs i st.
            getAllFromIndexedDB sto (store h) = Resolved rs
            \<and> findIndex (\<lambda>r. r_id r = Val routineId) rs = Some i
            \<and> saveToIndexedDB sto
                (rs[i := (rs ! i)\<lparr>r_slots := holding (map_option
                    (\<lambda>slots. map (\<lambda>slot. if s_id slot = Val slotId
                                           then slot\<lparr>s_isOfflineDeleted := Val True\<rparr> else slot)
                               (filter (\<lambda>slot. \<not> (s_id slot = Val slotId \<and> truthy (s_isOffline slot))) slots))
                    (rd (r_slots (rs ! i))))\<rparr>])
                (store h) = Resolved st
            \<longrightarrow> deleteRoutineSlot sto e routineId slotId h
                  = (Resolved (), h\<lparr>error := None, store := st,
                                    routines := dropSlot routineId slotId (routines h)\<rparr>))"
proof -
  have 1: "deleteRoutineSlot disabledStorage e routineId slotId h
           = (Resolved (), h\<lparr>error := None, routines := dropSlot routineId slotId (routines h)\<rparr>)"
    using off by (simp add: deleteRoutineSlot_def disabledStorage_def Let_def)
  have 2: "\<forall>r\<in>set (dropSlot routineId slotId (routines h)).
             r_id r = Val routineId \<longrightarrow> (\<forall>s\<in>set (slotsOrEmpty r). s_id s \<noteq> Val slotId)"
    by (auto simp: dropSlot_def slotsOrEmpty_holding split: option.splits if_splits)
  have 3: "\<forall>r\<in>set (routines h). r_id r \<noteq> Val routineId \<longrightarrow> r \<in> set (dropSlot routineId slotId (routines h))"
    by (force simp: dropSlot_def)
  have 4: "remoteLog (snd (syncOfflineChangesEnhanced svc disabledStorage e2 seen2
                          (snd (deleteRoutineSlot disabledStorage e routineId slotId h)))) = remoteLog h"
    by (simp add: 1 syncOfflineChangesEnhanced_def syncBegin_def disabled_syncRest)
  have 5: "deleteRoutineSlot sto e routineId slotId h
                  = (Resolved (), h\<lparr>error := None, store := st,
                                    routines := dropSlot routineId slotId (routines h)\<rparr>)"
    if "getAllFromIndexedDB sto (store h) = Resolved rs"
      and "findIndex (\<lambda>r. r_id r = Val routineId) rs = Some i"
      and "saveToIndexedDB sto
                (rs[i := (rs ! i)\<lparr>r_slots := holding (map_option
                    (\<lambda>slots. map (\<lambda>slot. if s_id slot = Val slotId
                                           then slot\<lparr>s_isOfflineDeleted := Val True\<rparr> else slot)
                               (filter (\<lambda>slot. \<not> (s_id slot = Val slotId \<and> truthy (s_isOffline slot))) slots))
                    (rd (r_slots (rs ! i))))\<rparr>])
                (store h) = Resolved st" for rs i st
  proof -
    have eq: "markDeleted slotId = (\<lambda>slots. map (\<lambda>slot. if s_id slot = Val slotId
                                           then slot\<lparr>s_isOfflineDeleted := Val True\<rparr> else slot)
                               (filter (\<lambda>slot. \<not> (s_id slot = Val slotId \<and> truthy (s_isOffline slot))) slots))"
      by (rule ext) (rule markDeleted_eq)
    from that off show ?thesis by (simp add: deleteRoutineSlot_def Let_def eq)
  qed
  from 1 2 3 4 5 show ?thesis by blast
qed

theorem offline_slot_delete_behaviour_witness:
  "isOffline offline
   \<and> deleteRoutineSlot disabledStorage offline ''r-1'' ''temp-s1''
       (idleHook [(plainRoutine ''r-1'' ''Algebra'')
                    \<lparr>r_slots := Val [(plainSlot ''temp-s1'' ''Mon'')\<lparr>s_isOffline := Val True\<rparr>,
                                     plainSlot ''s-2'' ''Tue'']\<rparr>] (0::nat))
     = (Resolved (), idleHook [(plainRoutine ''r-1'' ''Algebra'')\<lparr>r_slots := Val [plainSlot ''s-2'' ''Tue'']\<rparr>] 0)
   \<and> deleteRoutineSlot \<lparr>getAllFromIndexedDB = Resolved, saveToIndexedDB = (\<lambda>data st. Resolved data)\<rparr>
       offline ''r-1'' ''s-2''
       (idleHook []
          [(plainRoutine ''r-1'' ''Algebra'')
             \<lparr>r_slots := Val [(plainSlot ''temp-s1'' ''Mon'')\<lparr>s_isOffline := Val True\<rparr>,
                              plainSlot ''s-2'' ''Tue'']\<rparr>])
     = (Resolved (),
        idleHook []
          [(plainRoutine ''r-1'' ''Algebra'')
             \<lparr>r_slots := Val [(plainSlot ''temp-s1'' ''Mon'')\<lparr>s_isOffline := Val True\<rparr>,
                              (plainSlot ''s-2'' ''Tue'')\<lparr>s_isOfflineDeleted := Val True\<rparr>]\<rparr>])"
proof -
  let ?sto = "\<lparr>getAllFromIndexedDB = Resolved, saveToIndexedDB = (\<lambda>data st. Resolved data)\<rparr>
                :: (string, string, (string, string) Routine list) storage"
  let ?t = "(plainSlot ''temp-s1'' ''Mon'')\<lparr>s_isOffline := Val True\<rparr>"
  let ?r = "(plainRoutine ''r-1'' ''Algebra'')\<lparr>r_slots := Val [?t, plainSlot ''s-2'' ''Tue'']\<rparr>"
  let ?r' = "(plainRoutine ''r-1'' ''Algebra'')
               \<lparr>r_slots := Val [?t, (plainSlot ''s-2'' ''Tue'')\<lparr>s_isOfflineDeleted := Val True\<rparr>]\<rparr>"
  let ?h = "idleHook [?r] (0::nat)"
  let ?g = "idleHook [] [?r]"
  have off: "isOffline offline" by (simp add: offline_def)
  have d: "dropSlot ''r-1'' ''temp-s1'' (routines ?h)
             = [(plainRoutine ''r-1'' ''Algebra'')\<lparr>r_slots := Val [plainSlot ''s-2'' ''Tue'']\<rparr>]"
    by (simp add: dropSlot_def idleHook_def plainRoutine_def plainSlot_def)
  from offline_slot_delete_behaviour [OF off, of "''r-1''" "''temp-s1''" ?h]
  have "deleteRoutineSlot disabledStorage offline ''r-1'' ''temp-s1'' ?h
          = (Resolved (), ?h\<lparr>error := None, routines := dropSlot ''r-1'' ''temp-s1'' (routines ?h)\<rparr>)"
    by blast
  then have a: "deleteRoutineSlot disabledStorage offline ''r-1'' ''temp-s1'' ?h
          = (Resolved (), idleHook [(plainRoutine ''r-1'' ''Algebra'')\<lparr>r_slots := Val [plainSlot ''s-2'' ''Tue'']\<rparr>] 0)"
    by (simp only: d) (simp add: idleHook_def)
  have g: "getAllFromIndexedDB ?sto (store ?g) = Resolved [?r]" by (simp add: idleHook_def)
  have ix: "findIndex (\<lambda>r. r_id r = Val ''r-1'') [?r] = Some 0" by (simp add: plainRoutine_def)
  have sv: "saveToIndexedDB ?sto
              ([?r][0 := ([?r] ! 0)\<lparr>r_slots := holding (map_option
                    (\<lambda>slots. map (\<lambda>slot. if s_id slot = Val ''s-2''
                                           then slot\<lparr>s_isOfflineDeleted := Val True\<rparr> else slot)
                               (filter (\<lambda>slot. \<not> (s_id slot = Val ''s-2'' \<and> truthy (s_isOffline slot))) slots))
                    (rd (r_slots ([?r] ! 0))))\<rparr>])
              (store ?g) = Resolved [?r']"
    by (simp add: plainSlot_def truthy_def)
  from offline_slot_delete_behaviour [OF off, of "''r-1''" "''s-2''" ?g _ _ _ ?sto] g ix sv
  have "deleteRoutineSlot ?sto offline ''r-1'' ''s-2'' ?g
          = (Resolved (), ?g\<lparr>error := None, store := [?r'],
                             routines := dropSlot ''r-1'' ''s-2'' (routines ?g)\<rparr>)"
    by blast
  then have b: "deleteRoutineSlot ?sto offline ''r-1'' ''s-2'' ?g = (Resolved (), idleHook [] [?r'])"
    by (simp add: idleHook_def dropSlot_def)
  show ?thesis by (intro conjI off a b)
qed

end
